theory Spec2Isabelle
  imports Main "HOL-Library.Word"
begin

section \<open>Subscription billing (server/src/billing.ts)\<close>

text \<open>
  The module keeps one mutable \<open>plan\<close>; the functions below read it, so the model passes
  it as an argument. Prices and minutes are whole numbers: the defaults are, and
  \<open>loadBillingConfig\<close> reads the others with \<open>parseInt\<close>.
\<close>

record SubscriptionPlan =
  monthlyPriceCents :: int
  monthlyMinutes :: int

definition default_plan :: SubscriptionPlan where
  "default_plan = \<lparr>monthlyPriceCents = 2000, monthlyMinutes = 60\<rparr>"

definition getMonthlyMinutes :: "SubscriptionPlan \<Rightarrow> int" where
  "getMonthlyMinutes plan = monthlyMinutes plan"

definition getMinutesRemaining :: "SubscriptionPlan \<Rightarrow> int \<Rightarrow> int" where
  "getMinutesRemaining plan minutesUsed = max 0 (monthlyMinutes plan - minutesUsed)"

definition hasMinutesRemaining :: "SubscriptionPlan \<Rightarrow> int \<Rightarrow> bool" where
  "hasMinutesRemaining plan minutesUsed \<longleftrightarrow> minutesUsed < monthlyMinutes plan"

section \<open>Deepgram streaming recognizer session (server/src/providers/stt-deepgram.ts)\<close>

subsection \<open>Strings\<close>

text \<open>
  A JavaScript string is a list of UTF-16 code units. \<open>trim\<close> is \<open>String.prototype.trim\<close>:
  it removes from both ends the white space and line terminator characters of the
  language: tab, line feed, vertical tab, form feed, carriage return, space, no-break
  space, the other Unicode space separators (U+1680, U+2000 to U+200A, U+202F, U+205F,
  U+3000), the line and paragraph separators and the byte order mark. Each of them is one
  code unit. \<open>utf16\<close> writes an ASCII literal as such a string.
\<close>

type_synonym jschar = "16 word"

type_synonym jsstring = "jschar list"

definition utf16 :: "string \<Rightarrow> jsstring" where
  "utf16 str = map (\<lambda>c. of_nat (of_char c)) str"

definition is_space :: "jschar \<Rightarrow> bool" where
  "is_space c \<longleftrightarrow>
     c \<in> set [0x0009, 0x000A, 0x000B, 0x000C, 0x000D, 0x0020, 0x00A0, 0x1680,
              0x2000, 0x2001, 0x2002, 0x2003, 0x2004, 0x2005, 0x2006, 0x2007, 0x2008,
              0x2009, 0x200A, 0x2028, 0x2029, 0x202F, 0x205F, 0x3000, 0xFEFF]"

definition trim :: "jsstring \<Rightarrow> jsstring" where
  "trim str = rev (dropWhile is_space (rev (dropWhile is_space str)))"

subsection \<open>The session and the world around it\<close>

text \<open>
  The class \<open>DeepgramSTTSession\<close> is a record of its fields. What the class reaches
  through closures and library objects is part of the same record, below the fields:
  every upstream WebSocket created so far (\<open>this.ws\<close> is an index into them, \<open>None\<close> for
  \<open>null\<close>), the frames sent, the keepalive intervals, the reconnect timers, and one entry
  per \<open>waitForTranscript\<close> call with its promise and its timeout. Time is not modelled:
  a timer is an event that may happen while the timer is armed.
\<close>

type_synonym byte = "8 word"

datatype readyState = CONNECTING | OPEN | CLOSING | CLOSED

datatype 'a promise = Pending | Resolved 'a | Rejected string

definition resolve :: "'a \<Rightarrow> 'a promise \<Rightarrow> 'a promise" where
  "resolve v p = (case p of Pending \<Rightarrow> Resolved v | _ \<Rightarrow> p)"

definition reject :: "string \<Rightarrow> 'a promise \<Rightarrow> 'a promise" where
  "reject msg p = (case p of Pending \<Rightarrow> Rejected msg | _ \<Rightarrow> p)"

datatype frame = KeepAlive | CloseStream | Audio "byte list"

record upstream =
  readyState :: readyState
  connectTimer :: bool
  connectResult :: "unit promise"

record waiter =
  timeoutMs :: nat
  timeoutArmed :: bool
  answer :: "jsstring promise"

record DeepgramSTTSession =
  ws :: "nat option"
  connected :: bool
  pendingTranscript :: jsstring
  onTranscriptCallback :: "nat option"
  onPartialCallback :: bool
  closed :: bool
  reconnectAttempts :: nat
  keepAliveInterval :: "nat option"
  sockets :: "upstream list"
  outbox :: "(nat \<times> frame) list"
  intervals :: "bool list"
  reconnectTimers :: "(nat \<times> bool) list"
  waiters :: "waiter list"
  partials :: "jsstring list"

definition maxReconnectAttempts :: nat where
  "maxReconnectAttempts = 5"

definition reconnectDelayMs :: nat where
  "reconnectDelayMs = 1000"

definition new_session :: DeepgramSTTSession where
  "new_session =
     \<lparr>ws = None, connected = False, pendingTranscript = [], onTranscriptCallback = None,
      onPartialCallback = False, closed = False, reconnectAttempts = 0,
      keepAliveInterval = None, sockets = [], outbox = [], intervals = [],
      reconnectTimers = [], waiters = [], partials = []\<rparr>"

text \<open>\<open>this.ws?.readyState\<close>: \<open>None\<close> is \<open>undefined\<close>.\<close>

definition ws_readyState :: "DeepgramSTTSession \<Rightarrow> readyState option" where
  "ws_readyState s =
     (case ws s of
        None \<Rightarrow> None
      | Some i \<Rightarrow> if i < length (sockets s) then Some (readyState (sockets s ! i)) else None)"

text \<open>\<open>this.ws.send(frame)\<close>, called only under a check that the socket is open.\<close>

definition ws_send :: "DeepgramSTTSession \<Rightarrow> frame \<Rightarrow> DeepgramSTTSession" where
  "ws_send s f =
     (case ws s of None \<Rightarrow> s | Some i \<Rightarrow> s\<lparr>outbox := outbox s @ [(i, f)]\<rparr>)"

subsection \<open>Connecting and reconnecting\<close>

text \<open>
  \<open>doConnect\<close> creates a WebSocket, stores it in \<open>this.ws\<close> and arms the 10 s timer that
  rejects the returned promise. The four handlers it registers are the functions
  \<open>on_open\<close>, \<open>on_message\<close>, \<open>on_error\<close> and \<open>on_close\<close> below.
\<close>

definition doConnect :: "DeepgramSTTSession \<Rightarrow> DeepgramSTTSession" where
  "doConnect s =
     s\<lparr>ws := Some (length (sockets s)),
       sockets := sockets s @
         [\<lparr>readyState = CONNECTING, connectTimer = True, connectResult = Pending\<rparr>]\<rparr>"

definition connect :: "DeepgramSTTSession \<Rightarrow> DeepgramSTTSession" where
  "connect s = doConnect (s\<lparr>closed := False, reconnectAttempts := 0\<rparr>)"

definition clearKeepAlive :: "DeepgramSTTSession \<Rightarrow> DeepgramSTTSession" where
  "clearKeepAlive s =
     (case keepAliveInterval s of
        None \<Rightarrow> s
      | Some k \<Rightarrow> s\<lparr>intervals := (intervals s)[k := False], keepAliveInterval := None\<rparr>)"

text \<open>
  \<open>attemptReconnect\<close> runs up to its \<open>await\<close> of the delay; \<open>attemptReconnect_resume\<close> is
  the rest, run when that timer fires. The outcome of the awaited \<open>doConnect\<close> is only
  logged.
\<close>

definition attemptReconnect :: "DeepgramSTTSession \<Rightarrow> DeepgramSTTSession" where
  "attemptReconnect s =
     (if closed s then s
      else if reconnectAttempts s \<ge> maxReconnectAttempts then s
      else
        let n = reconnectAttempts s + 1;
            delay = reconnectDelayMs * 2 ^ (n - 1)
        in s\<lparr>reconnectAttempts := n, reconnectTimers := reconnectTimers s @ [(delay, True)]\<rparr>)"

definition attemptReconnect_resume :: "DeepgramSTTSession \<Rightarrow> DeepgramSTTSession" where
  "attemptReconnect_resume s = (if closed s then s else doConnect s)"

definition settle_connect ::
  "DeepgramSTTSession \<Rightarrow> nat \<Rightarrow> (unit promise \<Rightarrow> unit promise) \<Rightarrow> DeepgramSTTSession" where
  "settle_connect s i f =
     s\<lparr>sockets := (sockets s)[i := (sockets s ! i)\<lparr>connectResult := f (connectResult (sockets s ! i))\<rparr>]\<rparr>"

definition on_open :: "DeepgramSTTSession \<Rightarrow> nat \<Rightarrow> DeepgramSTTSession" where
  "on_open s i =
     settle_connect
       (s\<lparr>connected := True, reconnectAttempts := 0,
          keepAliveInterval := Some (length (intervals s)),
          intervals := intervals s @ [True]\<rparr>)
       i (resolve ())"

definition keepAlive_tick :: "DeepgramSTTSession \<Rightarrow> DeepgramSTTSession" where
  "keepAlive_tick s = (if ws_readyState s = Some OPEN then ws_send s KeepAlive else s)"

definition on_error :: "DeepgramSTTSession \<Rightarrow> nat \<Rightarrow> string \<Rightarrow> DeepgramSTTSession" where
  "on_error s i err = (if \<not> connected s then settle_connect s i (reject err) else s)"

definition on_close :: "DeepgramSTTSession \<Rightarrow> DeepgramSTTSession" where
  "on_close s =
     (let s1 = clearKeepAlive (s\<lparr>connected := False\<rparr>)
      in if \<not> closed s1 then attemptReconnect s1 else s1)"

definition connect_timeout :: "DeepgramSTTSession \<Rightarrow> nat \<Rightarrow> DeepgramSTTSession" where
  "connect_timeout s i =
     (if \<not> connected s then settle_connect s i (reject ''Deepgram STT connection timeout'')
      else s)"

subsection \<open>Recognizer events\<close>

text \<open>
  A \<open>Results\<close> event carries the transcripts of \<open>channel.alternatives\<close> (\<open>None\<close> when
  \<open>channel\<close> or \<open>alternatives\<close> is missing; a missing \<open>transcript\<close> is the empty string, which
  is as falsy), \<open>is_final\<close> and \<open>speech_final\<close>. \<open>OtherEvent\<close> is any type the \<open>switch\<close> has
  no case for.
\<close>

datatype dg_event =
    Results "jsstring list option" bool bool
  | SpeechStarted
  | UtteranceEnd
  | Metadata
  | ErrorEvent
  | OtherEvent

text \<open>\<open>this.onPartialCallback?.(text)\<close>; the calls made are recorded in \<open>partials\<close>.\<close>

definition emit_partial :: "DeepgramSTTSession \<Rightarrow> jsstring \<Rightarrow> DeepgramSTTSession" where
  "emit_partial s text = (if onPartialCallback s then s\<lparr>partials := partials s @ [text]\<rparr> else s)"

text \<open>
  \<open>this.onTranscriptCallback?.(text)\<close>. The only callback ever stored is the closure of
  \<open>waitForTranscript\<close>: it clears its timeout, empties the slot and resolves its promise.
\<close>

definition emit_transcript :: "DeepgramSTTSession \<Rightarrow> jsstring \<Rightarrow> DeepgramSTTSession" where
  "emit_transcript s text =
     (case onTranscriptCallback s of
        None \<Rightarrow> s
      | Some w \<Rightarrow>
          s\<lparr>waiters := (waiters s)[w := (waiters s ! w)
                \<lparr>timeoutArmed := False, answer := resolve text (answer (waiters s ! w))\<rparr>],
            onTranscriptCallback := None\<rparr>)"

definition handleTranscriptResult ::
  "DeepgramSTTSession \<Rightarrow> jsstring list option \<Rightarrow> bool \<Rightarrow> bool \<Rightarrow> DeepgramSTTSession" where
  "handleTranscriptResult s alternatives isFinal speechFinal =
     (case alternatives of
        None \<Rightarrow> s
      | Some [] \<Rightarrow> s
      | Some (transcript # _) \<Rightarrow>
          if transcript = [] then s
          else if isFinal then
            let s1 = s\<lparr>pendingTranscript := pendingTranscript s @ transcript @ [0x0020]\<rparr>;
                s2 = emit_partial s1 (trim (pendingTranscript s1))
            in if speechFinal
               then (emit_transcript s2 (trim (pendingTranscript s2)))\<lparr>pendingTranscript := []\<rparr>
               else s2
          else emit_partial s (trim (pendingTranscript s @ transcript)))"

fun handleEvent :: "DeepgramSTTSession \<Rightarrow> dg_event \<Rightarrow> DeepgramSTTSession" where
  "handleEvent s (Results alternatives isFinal speechFinal) =
     handleTranscriptResult s alternatives isFinal speechFinal"
| "handleEvent s SpeechStarted = s\<lparr>pendingTranscript := []\<rparr>"
| "handleEvent s UtteranceEnd =
     (if trim (pendingTranscript s) \<noteq> []
      then (emit_transcript s (trim (pendingTranscript s)))\<lparr>pendingTranscript := []\<rparr>
      else s)"
| "handleEvent s Metadata = s"
| "handleEvent s ErrorEvent = s"
| "handleEvent s OtherEvent = s"

text \<open>The message handler: \<open>None\<close> is data that \<open>JSON.parse\<close> rejects (caught and logged).\<close>

definition on_message :: "DeepgramSTTSession \<Rightarrow> dg_event option \<Rightarrow> DeepgramSTTSession" where
  "on_message s data = (case data of None \<Rightarrow> s | Some event \<Rightarrow> handleEvent s event)"

subsection \<open>The public methods\<close>

definition sendAudio :: "DeepgramSTTSession \<Rightarrow> byte list \<Rightarrow> DeepgramSTTSession" where
  "sendAudio s muLawData =
     (if \<not> connected s \<or> ws_readyState s \<noteq> Some OPEN then s
      else ws_send s (Audio muLawData))"

definition onPartial :: "DeepgramSTTSession \<Rightarrow> DeepgramSTTSession" where
  "onPartial s = s\<lparr>onPartialCallback := True\<rparr>"

definition waitForTranscript :: "DeepgramSTTSession \<Rightarrow> nat \<Rightarrow> DeepgramSTTSession" where
  "waitForTranscript s ms =
     s\<lparr>waiters := waiters s @ [\<lparr>timeoutMs = ms, timeoutArmed = True, answer = Pending\<rparr>],
       onTranscriptCallback := Some (length (waiters s))\<rparr>"

text \<open>The body of the timeout that \<open>waitForTranscript\<close> arms, for the waiter \<open>w\<close>.\<close>

definition transcript_timeout :: "DeepgramSTTSession \<Rightarrow> nat \<Rightarrow> DeepgramSTTSession" where
  "transcript_timeout s w =
     s\<lparr>onTranscriptCallback := None,
       waiters := (waiters s)[w := (waiters s ! w)
         \<lparr>answer := reject ''Transcript timeout'' (answer (waiters s ! w))\<rparr>]\<rparr>"

text \<open>\<open>ws.close()\<close> of the library: the socket starts closing unless it is closed already.\<close>

definition set_readyState :: "DeepgramSTTSession \<Rightarrow> nat \<Rightarrow> readyState \<Rightarrow> DeepgramSTTSession" where
  "set_readyState s i r = s\<lparr>sockets := (sockets s)[i := (sockets s ! i)\<lparr>readyState := r\<rparr>]\<rparr>"

definition ws_close :: "DeepgramSTTSession \<Rightarrow> nat \<Rightarrow> DeepgramSTTSession" where
  "ws_close s i =
     (if i < length (sockets s) \<and> readyState (sockets s ! i) \<noteq> CLOSED
      then set_readyState s i CLOSING else s)"

definition close :: "DeepgramSTTSession \<Rightarrow> DeepgramSTTSession" where
  "close s =
     (let s1 = clearKeepAlive (s\<lparr>closed := True\<rparr>);
          s2 = (case ws s1 of
                  None \<Rightarrow> s1
                | Some i \<Rightarrow>
                    let s3 = (if ws_readyState s1 = Some OPEN then ws_send s1 CloseStream else s1)
                    in (ws_close s3 i)\<lparr>ws := None\<rparr>)
      in s2\<lparr>connected := False\<rparr>)"

definition isConnected :: "DeepgramSTTSession \<Rightarrow> bool" where
  "isConnected s = connected s"

subsection \<open>Everything that can happen to a session\<close>

text \<open>
  Calls of the public methods, events of the upstream sockets (by socket index) and timers
  firing. An event of a socket that does not exist, an \<open>open\<close> of a socket that is not
  connecting, a \<open>close\<close> of a closed socket and a timer that is not armed do nothing.
\<close>

datatype action =
    Connect
  | SendAudio "byte list"
  | OnPartial
  | WaitForTranscript nat
  | Close
  | WsOpen nat
  | WsMessage nat "dg_event option"
  | WsError nat string
  | WsClose nat
  | ConnectTimeout nat
  | KeepAliveTick nat
  | ReconnectTimer nat
  | TranscriptTimeout nat

fun step :: "DeepgramSTTSession \<Rightarrow> action \<Rightarrow> DeepgramSTTSession" where
  "step s Connect = connect s"
| "step s (SendAudio muLawData) = sendAudio s muLawData"
| "step s OnPartial = onPartial s"
| "step s (WaitForTranscript ms) = waitForTranscript s ms"
| "step s Close = close s"
| "step s (WsOpen i) =
     (if i < length (sockets s) \<and> readyState (sockets s ! i) = CONNECTING
      then on_open (set_readyState s i OPEN) i else s)"
| "step s (WsMessage i data) = (if i < length (sockets s) then on_message s data else s)"
| "step s (WsError i err) = (if i < length (sockets s) then on_error s i err else s)"
| "step s (WsClose i) =
     (if i < length (sockets s) \<and> readyState (sockets s ! i) \<noteq> CLOSED
      then on_close (set_readyState s i CLOSED) else s)"
| "step s (ConnectTimeout i) =
     (if i < length (sockets s) \<and> connectTimer (sockets s ! i)
      then connect_timeout
             (s\<lparr>sockets := (sockets s)[i := (sockets s ! i)\<lparr>connectTimer := False\<rparr>]\<rparr>) i
      else s)"
| "step s (KeepAliveTick k) =
     (if k < length (intervals s) \<and> intervals s ! k then keepAlive_tick s else s)"
| "step s (ReconnectTimer k) =
     (if k < length (reconnectTimers s) \<and> snd (reconnectTimers s ! k)
      then attemptReconnect_resume
             (s\<lparr>reconnectTimers := (reconnectTimers s)[k := (fst (reconnectTimers s ! k), False)]\<rparr>)
      else s)"
| "step s (TranscriptTimeout w) =
     (if w < length (waiters s) \<and> timeoutArmed (waiters s ! w)
      then transcript_timeout
             (s\<lparr>waiters := (waiters s)[w := (waiters s ! w)\<lparr>timeoutArmed := False\<rparr>]\<rparr>) w
      else s)"

definition run :: "DeepgramSTTSession \<Rightarrow> action list \<Rightarrow> DeepgramSTTSession" where
  "run s acts = foldl step s acts"

subsection \<open>Vocabulary of the properties\<close>










text \<open>The waiter in the callback slot, when there is one, exists and is pending.\<close>

definition slot_pending :: "DeepgramSTTSession \<Rightarrow> bool" where
  "slot_pending s \<longleftrightarrow>
     (case onTranscriptCallback s of
        None \<Rightarrow> True
      | Some w \<Rightarrow> w < length (waiters s) \<and> answer (waiters s ! w) = Pending)"

text \<open>
  The delays of the reconnect timers started so far, oldest first, and the actions that
  set the attempt counter back to zero.
\<close>

definition delays :: "DeepgramSTTSession \<Rightarrow> nat list" where
  "delays s = map fst (reconnectTimers s)"

fun resets_attempts :: "action \<Rightarrow> bool" where
  "resets_attempts Connect = True"
| "resets_attempts (WsOpen i) = True"
| "resets_attempts _ = False"






text \<open>
  Two more example sessions: the connection was lost and the first reconnect attempt has
  created its socket; and five attempts in a row have failed, the fifth attempt's socket
  still connecting.
\<close>

definition one_failure :: DeepgramSTTSession where
  "one_failure = run new_session [Connect, WsOpen 0, WsClose 0, ReconnectTimer 0]"

definition five_failures :: DeepgramSTTSession where
  "five_failures =
     run new_session
       [Connect, WsOpen 0, WsClose 0, ReconnectTimer 0, WsClose 1, ReconnectTimer 1,
        WsClose 2, ReconnectTimer 2, WsClose 3, ReconnectTimer 3, WsClose 4, ReconnectTimer 4]"

section \<open>OpenAI-compatible TTS provider (server/src/providers/tts-openai.ts)\<close>

subsection \<open>Substrings\<close>

text \<open>\<open>String.prototype.includes\<close>: the pattern occurs somewhere in the string.\<close>

fun str_includes :: "string \<Rightarrow> string \<Rightarrow> bool" where
  "str_includes [] pat = (pat = [])"
| "str_includes (c # cs) pat = (take (length pat) (c # cs) = pat \<or> str_includes cs pat)"

subsection \<open>Buffers\<close>

text \<open>
  A \<open>Buffer\<close> is a list of bytes. \<open>readUInt16LE\<close> and \<open>readUInt32LE\<close> give \<open>None\<close> where
  Node raises a \<open>RangeError\<close>, and \<open>subarray\<close> from an offset is \<open>drop\<close>.
\<close>

definition u16le :: "byte list \<Rightarrow> nat \<Rightarrow> nat" where
  "u16le buf off = unat (buf ! off) + 256 * unat (buf ! (off + 1))"

definition u32le :: "byte list \<Rightarrow> nat \<Rightarrow> nat" where
  "u32le buf off =
     unat (buf ! off) + 256 * unat (buf ! (off + 1)) + 65536 * unat (buf ! (off + 2)) +
     16777216 * unat (buf ! (off + 3))"

definition readUInt16LE :: "byte list \<Rightarrow> nat \<Rightarrow> nat option" where
  "readUInt16LE buf off = (if off + 2 \<le> length buf then Some (u16le buf off) else None)"

definition readUInt32LE :: "byte list \<Rightarrow> nat \<Rightarrow> nat option" where
  "readUInt32LE buf off = (if off + 4 \<le> length buf then Some (u32le buf off) else None)"

subsection \<open>The provider\<close>

text \<open>
  The fields \<open>_name\<close>, \<open>_sampleRate\<close>, \<open>client\<close> (here: whether it is set), \<open>voice\<close> and
  \<open>model\<close>. The speech endpoint of the client is a parameter \<open>create\<close> of \<open>synthesize\<close>: it
  takes the request and gives the bytes of the response body, or the error it fails
  with.
\<close>

record OpenAITTSProvider =
  tts_name :: string
  tts_sampleRate :: nat
  tts_client :: bool
  tts_voice :: string
  tts_model :: string

record TTSConfig =
  apiKey :: "string option"
  apiUrl :: "string option"
  cfg_voice :: "string option"
  cfg_model :: "string option"
  cfg_sampleRate :: "nat option"

record speech_request =
  req_model :: string
  req_voice :: string
  req_input :: string
  response_format :: string

definition new_provider :: OpenAITTSProvider where
  "new_provider =
     \<lparr>tts_name = ''openai'', tts_sampleRate = 24000, tts_client = False,
      tts_voice = ''onyx'', tts_model = ''tts-1''\<rparr>"

text \<open>\<open>x || d\<close> on an optional string or number: the default replaces a missing, empty or zero value.\<close>

definition or_string :: "string option \<Rightarrow> string \<Rightarrow> string" where
  "or_string x d = (case x of None \<Rightarrow> d | Some v \<Rightarrow> if v = [] then d else v)"

definition or_nat :: "nat option \<Rightarrow> nat \<Rightarrow> nat" where
  "or_nat x d = (case x of None \<Rightarrow> d | Some v \<Rightarrow> if v = 0 then d else v)"

definition initialize :: "OpenAITTSProvider \<Rightarrow> TTSConfig \<Rightarrow> string + OpenAITTSProvider" where
  "initialize p config =
     (if or_string (apiKey config) [] = [] then Inl ''API key required for TTS''
      else
        let p1 = p\<lparr>tts_client := True,
                   tts_voice := or_string (cfg_voice config) ''onyx'',
                   tts_model := or_string (cfg_model config) ''tts-1''\<rparr>
        in if str_includes (or_string (apiUrl config) []) ''lemonfox''
           then Inr (p1\<lparr>tts_name := ''lemonfox'',
                       tts_sampleRate := or_nat (cfg_sampleRate config) 24000\<rparr>)
           else Inr (p1\<lparr>tts_sampleRate := or_nat (cfg_sampleRate config) 24000\<rparr>))"

definition synthesize ::
  "(speech_request \<Rightarrow> string + byte list) \<Rightarrow> OpenAITTSProvider \<Rightarrow> string \<Rightarrow>
     string + (byte list \<times> OpenAITTSProvider)" where
  "synthesize create p text =
     (if \<not> tts_client p then Inl ''OpenAI TTS not initialized''
      else
        let useWav = (tts_name p = ''lemonfox'') in
        case create \<lparr>req_model = tts_model p, req_voice = tts_voice p, req_input = text,
                     response_format = (if useWav then ''wav'' else ''pcm'')\<rparr> of
          Inl err \<Rightarrow> Inl err
        | Inr buffer \<Rightarrow>
            if useWav \<and> length buffer > 44 then
              (case (readUInt16LE buffer 22, readUInt32LE buffer 24, readUInt16LE buffer 34) of
                 (Some numChannels, Some detectedSampleRate, Some bitsPerSample) \<Rightarrow>
                   Inr (drop 44 buffer,
                        if detectedSampleRate \<noteq> tts_sampleRate p
                        then p\<lparr>tts_sampleRate := detectedSampleRate\<rparr> else p)
               | _ \<Rightarrow> Inl ''RangeError'')
            else Inr (buffer, p))"

subsection \<open>What the specification asks of the WAV parser\<close>

text \<open>
  Two functions written from the specification's words, to compare \<open>synthesize\<close> with.
  \<open>wav_data_by_scan\<close> looks for the first \<open>data\<close> FourCC and gives the bytes of that chunk:
  the four bytes after the FourCC are the chunk's size and the payload follows them.
  \<open>downmix_mono\<close> reads signed 16-bit little-endian samples, takes them \<open>channels\<close> at a
  time, and writes the average of each group.
\<close>

fun find_fourcc :: "byte list \<Rightarrow> byte list \<Rightarrow> nat \<Rightarrow> nat option" where
  "find_fourcc cc [] off = None"
| "find_fourcc cc (b # bs) off =
     (if take 4 (b # bs) = cc then Some off else find_fourcc cc bs (Suc off))"

definition data_fourcc :: "byte list" where
  "data_fourcc = [0x64, 0x61, 0x74, 0x61]"

definition wav_data_by_scan :: "byte list \<Rightarrow> byte list option" where
  "wav_data_by_scan buf =
     (case find_fourcc data_fourcc buf 0 of
        None \<Rightarrow> None
      | Some off \<Rightarrow> Some (take (u32le buf (off + 4)) (drop (off + 8) buf)))"

fun pcm16_samples :: "byte list \<Rightarrow> int list" where
  "pcm16_samples (lo # hi # rest) =
     (let u = int (unat lo) + 256 * int (unat hi)
      in (if u \<ge> 32768 then u - 65536 else u) # pcm16_samples rest)"
| "pcm16_samples _ = []"

definition pcm16_bytes :: "int list \<Rightarrow> byte list" where
  "pcm16_bytes xs = concat (map (\<lambda>v. [word_of_int v, word_of_int (v div 256)]) xs)"

fun groups :: "nat \<Rightarrow> 'a list \<Rightarrow> 'a list list" where
  "groups n xs = (if n = 0 \<or> xs = [] then [] else take n xs # groups n (drop n xs))"

definition downmix_mono :: "nat \<Rightarrow> byte list \<Rightarrow> byte list" where
  "downmix_mono channels pcm =
     pcm16_bytes (map (\<lambda>g. sum_list g div int (length g)) (groups channels (pcm16_samples pcm)))"

text \<open>
  Three responses used as examples. \<open>wav_data_at_78\<close> has a \<open>LIST\<close> chunk of 26 bytes
  between the format chunk and the data chunk, the header that ffmpeg writes: 24000 Hz,
  mono, 16 bit, and four bytes of PCM that begin at offset 78 (the \<open>data\<close> FourCC is at
  offset 70). In \<open>wav_fourcc_at_78\<close> the \<open>LIST\<close> chunk has 34 bytes, so that the \<open>data\<close>
  FourCC itself is at offset 78 and the same PCM at offset 86. \<open>wav_stereo\<close> has the
  44-byte header, two channels, and one frame: left 100, right 300.
\<close>

definition wav_data_at_78 :: "byte list" where
  "wav_data_at_78 =
     [0x52, 0x49, 0x46, 0x46, 0x4A, 0x00, 0x00, 0x00, 0x57, 0x41, 0x56, 0x45,
      0x66, 0x6D, 0x74, 0x20, 0x10, 0x00, 0x00, 0x00, 0x01, 0x00, 0x01, 0x00,
      0xC0, 0x5D, 0x00, 0x00, 0x80, 0xBB, 0x00, 0x00, 0x02, 0x00, 0x10, 0x00,
      0x4C, 0x49, 0x53, 0x54, 0x1A, 0x00, 0x00, 0x00, 0x49, 0x4E, 0x46, 0x4F,
      0x49, 0x53, 0x46, 0x54, 0x0E, 0x00, 0x00, 0x00, 0x4C, 0x61, 0x76, 0x66,
      0x35, 0x38, 0x2E, 0x37, 0x36, 0x2E, 0x31, 0x30, 0x30, 0x00,
      0x64, 0x61, 0x74, 0x61, 0x04, 0x00, 0x00, 0x00,
      0x01, 0x00, 0x02, 0x00]"

definition wav_fourcc_at_78 :: "byte list" where
  "wav_fourcc_at_78 =
     [0x52, 0x49, 0x46, 0x46, 0x52, 0x00, 0x00, 0x00, 0x57, 0x41, 0x56, 0x45,
      0x66, 0x6D, 0x74, 0x20, 0x10, 0x00, 0x00, 0x00, 0x01, 0x00, 0x01, 0x00,
      0xC0, 0x5D, 0x00, 0x00, 0x80, 0xBB, 0x00, 0x00, 0x02, 0x00, 0x10, 0x00,
      0x4C, 0x49, 0x53, 0x54, 0x22, 0x00, 0x00, 0x00, 0x49, 0x4E, 0x46, 0x4F,
      0x49, 0x53, 0x46, 0x54, 0x16, 0x00, 0x00, 0x00, 0x4C, 0x61, 0x76, 0x66,
      0x35, 0x38, 0x2E, 0x37, 0x36, 0x2E, 0x31, 0x30, 0x30, 0x20, 0x74, 0x74,
      0x73, 0x2D, 0x31, 0x00, 0x00, 0x00,
      0x64, 0x61, 0x74, 0x61, 0x04, 0x00, 0x00, 0x00,
      0x01, 0x00, 0x02, 0x00]"

definition wav_stereo :: "byte list" where
  "wav_stereo =
     [0x52, 0x49, 0x46, 0x46, 0x28, 0x00, 0x00, 0x00, 0x57, 0x41, 0x56, 0x45,
      0x66, 0x6D, 0x74, 0x20, 0x10, 0x00, 0x00, 0x00, 0x01, 0x00, 0x02, 0x00,
      0xC0, 0x5D, 0x00, 0x00, 0x00, 0x77, 0x01, 0x00, 0x04, 0x00, 0x10, 0x00,
      0x64, 0x61, 0x74, 0x61, 0x04, 0x00, 0x00, 0x00,
      0x64, 0x00, 0x2C, 0x01]"

definition lemonfox :: OpenAITTSProvider where
  "lemonfox =
     \<lparr>tts_name = ''lemonfox'', tts_sampleRate = 24000, tts_client = True,
      tts_voice = ''onyx'', tts_model = ''tts-1''\<rparr>"

section \<open>The message endpoint of the SSE server (server/src/index-sse.ts)\<close>

text \<open>
  \<open>activeTransports\<close> is a JavaScript \<open>Map\<close> from session ids to transports; it keeps its
  entries in insertion order, so it is a list of pairs with distinct keys. The \<open>/sse\<close>
  route adds the new transport under a fresh id (\<open>sse_connect\<close>) and removes it when the
  response closes (\<open>sse_close\<close>).
\<close>

definition map_set :: "('k \<times> 'v) list \<Rightarrow> 'k \<Rightarrow> 'v \<Rightarrow> ('k \<times> 'v) list" where
  "map_set m k v =
     (if map_of m k = None then m @ [(k, v)]
      else map (\<lambda>(k', v'). if k' = k then (k', v) else (k', v')) m)"

definition map_delete :: "('k \<times> 'v) list \<Rightarrow> 'k \<Rightarrow> ('k \<times> 'v) list" where
  "map_delete m k = filter (\<lambda>(k', v'). k' \<noteq> k) m"

definition sse_connect :: "(string \<times> 't) list \<Rightarrow> string \<Rightarrow> 't \<Rightarrow> (string \<times> 't) list" where
  "sse_connect activeTransports sessionId transport = map_set activeTransports sessionId transport"

definition sse_close :: "(string \<times> 't) list \<Rightarrow> string \<Rightarrow> (string \<times> 't) list" where
  "sse_close activeTransports sessionId = map_delete activeTransports sessionId"

text \<open>
  The handler of \<open>POST /messages\<close>, once the body has arrived. \<open>sessionId\<close> is the query
  parameter (\<open>None\<close> when the URL has none). \<open>handlePostMessage\<close> is the transport's method of
  the SDK; it says whether the call returns (\<open>True\<close>) or throws. The outcomes: the request
  was handed to a transport, it was handed to one whose method threw (answered 500), or
  no transport was found (answered 503).
\<close>

datatype 't post_outcome = Dispatched 't | DispatchFailed 't | NoActiveSession

definition session_transport :: "(string \<times> 't) list \<Rightarrow> string option \<Rightarrow> 't option" where
  "session_transport activeTransports sessionId =
     (case sessionId of
        None \<Rightarrow> None
      | Some sid \<Rightarrow> if sid = [] then None else map_of activeTransports sid)"

definition messages_post ::
  "('t \<Rightarrow> string \<Rightarrow> bool) \<Rightarrow> (string \<times> 't) list \<Rightarrow> string option \<Rightarrow> string \<Rightarrow> 't post_outcome" where
  "messages_post handlePostMessage activeTransports sessionId body =
     (let transport =
        (case session_transport activeTransports sessionId of
           Some t \<Rightarrow> Some t
         | None \<Rightarrow>
             let transports = map snd activeTransports
             in if transports = [] then None else Some (last transports))
      in case transport of
           Some t \<Rightarrow> if handlePostMessage t body then Dispatched t else DispatchFailed t
         | None \<Rightarrow> NoActiveSession)"

section \<open>The voice handler (mcp-server/src/phone-call.ts)\<close>

subsection \<open>Strings and arrays\<close>

text \<open>
  \<open>Array.prototype.join\<close>, and \<open>toLowerCase\<close> on the letters A to Z (other characters are
  kept).
\<close>

fun join :: "string \<Rightarrow> string list \<Rightarrow> string" where
  "join sep [] = []"
| "join sep [x] = x"
| "join sep (x # y # xs) = x @ sep @ join sep (y # xs)"

definition lower_char :: "char \<Rightarrow> char" where
  "lower_char c =
     (case map_of (zip ''ABCDEFGHIJKLMNOPQRSTUVWXYZ'' ''abcdefghijklmnopqrstuvwxyz'') c of
        None \<Rightarrow> c
      | Some l \<Rightarrow> l)"

definition toLowerCase :: "string \<Rightarrow> string" where
  "toLowerCase str = map lower_char str"

subsection \<open>The handler\<close>

text \<open>
  \<open>VoiceHandler\<close> with its fields; \<open>openaiWs\<close> is the ready state of the socket, \<open>None\<close> for
  \<open>null\<close>. Below the fields: the messages sent to the OpenAI socket, the promise that
  \<open>handleCall\<close> returns, and the 2 s timers that \<open>completeCall\<close> starts, each with the
  duration it captured. A \<open>CallResult\<close> is built in one place, without the optional
  \<open>callId\<close>. \<open>makePhoneCall\<close> creates a handler for a carrier connection and settles its
  own promise with what \<open>handleCall\<close>'s promise settles with, unchanged.
\<close>

datatype call_status = Completed | Failed | Timeout

record CallResult =
  status :: call_status
  call_transcript :: string
  duration :: int

datatype openai_message = SessionUpdate | InputAudioAppend string

record VoiceHandler =
  openaiWs :: "readyState option"
  userResponses :: "string list"
  isComplete :: bool
  startTime :: int
  openaiSent :: "openai_message list"
  call :: "CallResult promise"
  completionTimers :: "(int \<times> bool) list"

text \<open>
  An event of the OpenAI socket, by its \<open>type\<close>: a finished transcription of the user's
  audio with its \<open>transcript\<close>, \<open>response.done\<close> with \<open>response.output\<close>, an error with its
  message, or any other type.
\<close>

record content_part =
  part_type :: string
  part_text :: string

record output_item =
  item_type :: string
  item_content :: "content_part list"

datatype openai_event =
    TranscriptionCompleted string
  | ResponseDone "output_item list"
  | OpenAIErrorEvent string
  | OpenAIOtherEvent

definition new_handler :: "int \<Rightarrow> VoiceHandler" where
  "new_handler now =
     \<lparr>openaiWs = Some CONNECTING, userResponses = [], isComplete = False, startTime = now,
      openaiSent = [], call = Pending, completionTimers = []\<rparr>"

definition cleanup :: "VoiceHandler \<Rightarrow> VoiceHandler" where
  "cleanup h =
     (case openaiWs h of
        None \<Rightarrow> h
      | Some r \<Rightarrow> h\<lparr>openaiWs := None\<rparr>)"

definition sendSessionUpdate :: "VoiceHandler \<Rightarrow> VoiceHandler" where
  "sendSessionUpdate h =
     (case openaiWs h of
        None \<Rightarrow> h
      | Some r \<Rightarrow> h\<lparr>openaiSent := openaiSent h @ [SessionUpdate]\<rparr>)"

text \<open>A \<open>media\<close> message of the carrier with its payload; \<open>None\<close> is any other message.\<close>

definition handleTwilioMessage :: "VoiceHandler \<Rightarrow> string option \<Rightarrow> VoiceHandler" where
  "handleTwilioMessage h media =
     (case media of
        None \<Rightarrow> h
      | Some payload \<Rightarrow>
          if openaiWs h = Some OPEN
          then h\<lparr>openaiSent := openaiSent h @ [InputAudioAppend payload]\<rparr> else h)"

text \<open>
  \<open>completeCall\<close> up to its \<open>setTimeout\<close>; \<open>now\<close> is what \<open>Date.now()\<close> returns, and
  \<open>Math.round\<close> of a number of thousandths rounds halves up. \<open>completeCall_timer\<close> is the
  body of the timer, for the duration it captured.
\<close>

definition completeCall :: "VoiceHandler \<Rightarrow> int \<Rightarrow> VoiceHandler" where
  "completeCall h now =
     h\<lparr>isComplete := True,
       completionTimers := completionTimers h @ [((now - startTime h + 500) div 1000, True)]\<rparr>"

definition completeCall_timer :: "VoiceHandler \<Rightarrow> int \<Rightarrow> VoiceHandler" where
  "completeCall_timer h d =
     (let transcript = join [CHR 0x0A, CHR 0x0A] (userResponses h);
          h1 = cleanup h
      in h1\<lparr>call := resolve
            \<lparr>status = Completed,
             call_transcript = (if transcript = [] then ''No response captured'' else transcript),
             duration = d\<rparr> (call h1)\<rparr>)"

definition assistantText :: "output_item list \<Rightarrow> string" where
  "assistantText output =
     join '' ''
       (map (\<lambda>item. join '' ''
               (map part_text (filter (\<lambda>c. part_type c = ''text'') (item_content item))))
          (filter (\<lambda>item. item_type item = ''message'') output))"

fun handleOpenAIEvent :: "VoiceHandler \<Rightarrow> int \<Rightarrow> openai_event \<Rightarrow> VoiceHandler" where
  "handleOpenAIEvent h now (TranscriptionCompleted userText) =
     h\<lparr>userResponses := userResponses h @ [userText]\<rparr>"
| "handleOpenAIEvent h now (ResponseDone output) =
     (if output \<noteq> [] \<and> assistantText output \<noteq> [] \<and>
         (str_includes (toLowerCase (assistantText output))
            (''i'' @ [CHR 0x27] @ ''ll relay this to claude'') \<or>
          str_includes (toLowerCase (assistantText output)) ''thank you'')
      then completeCall h now else h)"
| "handleOpenAIEvent h now (OpenAIErrorEvent msg) = h\<lparr>call := reject msg (call h)\<rparr>"
| "handleOpenAIEvent h now OpenAIOtherEvent = h"

subsection \<open>Everything that can happen to a handler\<close>

text \<open>
  The events that \<open>handleCall\<close> and \<open>initializeOpenAI\<close> subscribe to, and the timers. A
  message of the OpenAI socket comes with the clock's reading; \<open>None\<close> is a message that
  fails to parse or whose handling throws (both are caught and logged).
\<close>

datatype call_action =
    OpenAIOpen
  | OpenAIMessage int "openai_event option"
  | OpenAIError string
  | TwilioMessage "string option"
  | TwilioClose
  | TwilioError string
  | CallTimeout
  | CompletionTimer nat

fun call_step :: "VoiceHandler \<Rightarrow> call_action \<Rightarrow> VoiceHandler" where
  "call_step h OpenAIOpen =
     sendSessionUpdate (case openaiWs h of None \<Rightarrow> h | Some r \<Rightarrow> h\<lparr>openaiWs := Some OPEN\<rparr>)"
| "call_step h (OpenAIMessage now data) =
     (case data of None \<Rightarrow> h | Some event \<Rightarrow> handleOpenAIEvent h now event)"
| "call_step h (OpenAIError err) = h\<lparr>call := reject err (call h)\<rparr>"
| "call_step h (TwilioMessage media) = handleTwilioMessage h media"
| "call_step h TwilioClose =
     (let h1 = cleanup h
      in if \<not> isComplete h1 then h1\<lparr>call := reject ''Call ended prematurely'' (call h1)\<rparr>
         else h1)"
| "call_step h (TwilioError err) = (let h1 = cleanup h in h1\<lparr>call := reject err (call h1)\<rparr>)"
| "call_step h CallTimeout =
     (if \<not> isComplete h
      then (let h1 = cleanup h
            in h1\<lparr>call := reject ''Call timeout after 5 minutes'' (call h1)\<rparr>)
      else h)"
| "call_step h (CompletionTimer k) =
     (if k < length (completionTimers h) \<and> snd (completionTimers h ! k)
      then completeCall_timer
             (h\<lparr>completionTimers :=
                  (completionTimers h)[k := (fst (completionTimers h ! k), False)]\<rparr>)
             (fst (completionTimers h ! k))
      else h)"

definition call_run :: "VoiceHandler \<Rightarrow> call_action list \<Rightarrow> VoiceHandler" where
  "call_run h acts = foldl call_step h acts"

text \<open>The user's transcription texts among some events, in the order of arrival.\<close>

fun user_text :: "call_action \<Rightarrow> string list" where
  "user_text (OpenAIMessage now (Some (TranscriptionCompleted userText))) = [userText]"
| "user_text _ = []"

definition user_texts :: "call_action list \<Rightarrow> string list" where
  "user_texts acts = concat (map user_text acts)"

text \<open>
  A call used as an example: the user's audio is transcribed as the empty text, the
  assistant closes with its thanks, and the completion timer fires.
\<close>

definition thanks :: "output_item list" where
  "thanks =
     [\<lparr>item_type = ''message'',
       item_content = [\<lparr>part_type = ''text'', part_text = ''Thank you, goodbye.''\<rparr>]\<rparr>]"

definition silent_call :: "call_action list" where
  "silent_call =
     [OpenAIOpen, OpenAIMessage 4000 (Some (TranscriptionCompleted [])),
      OpenAIMessage 9600 (Some (ResponseDone thanks)), CompletionTimer 0]"

definition two_answers :: "call_action list" where
  "two_answers =
     [OpenAIOpen, OpenAIMessage 4000 (Some (TranscriptionCompleted ''yes'')),
      OpenAIMessage 7000 (Some (TranscriptionCompleted ''go ahead'')),
      OpenAIMessage 9400 (Some (ResponseDone thanks)), CompletionTimer 0]"

section \<open>Properties of promises\<close>

text \<open>A promise settles once: resolving and rejecting change a pending promise only.\<close>

lemma resolve_Resolved:
  "resolve v p = Resolved r \<Longrightarrow> p = Resolved r \<or> (p = Pending \<and> r = v)"
  by (cases p) (simp_all add: resolve_def)

lemma reject_Resolved: "reject msg p = Resolved r \<Longrightarrow> p = Resolved r"
  by (cases p) (simp_all add: reject_def)

section \<open>Properties of the recognizer session\<close>

subsection \<open>Unfolding the model on concrete sessions\<close>

lemmas stt_eval =
  run_def new_session_def connect_def doConnect_def on_open_def set_readyState_def
  settle_connect_def resolve_def reject_def on_close_def clearKeepAlive_def
  attemptReconnect_def attemptReconnect_resume_def maxReconnectAttempts_def
  reconnectDelayMs_def waitForTranscript_def transcript_timeout_def on_message_def
  handleTranscriptResult_def emit_partial_def emit_transcript_def trim_def is_space_def
  utf16_def
  Let_def

subsection \<open>What each operation leaves alone\<close>

lemma settle_connect_simps [simp]:
  "closed (settle_connect s i f) = closed s"
  "length (sockets (settle_connect s i f)) = length (sockets s)"
  "reconnectAttempts (settle_connect s i f) = reconnectAttempts s"
  "reconnectTimers (settle_connect s i f) = reconnectTimers s"
  "waiters (settle_connect s i f) = waiters s"
  "onTranscriptCallback (settle_connect s i f) = onTranscriptCallback s"
  by (simp_all add: settle_connect_def)

lemma set_readyState_simps [simp]:
  "closed (set_readyState s i r) = closed s"
  "length (sockets (set_readyState s i r)) = length (sockets s)"
  "reconnectAttempts (set_readyState s i r) = reconnectAttempts s"
  "reconnectTimers (set_readyState s i r) = reconnectTimers s"
  "waiters (set_readyState s i r) = waiters s"
  "onTranscriptCallback (set_readyState s i r) = onTranscriptCallback s"
  by (simp_all add: set_readyState_def)

lemma clearKeepAlive_simps [simp]:
  "closed (clearKeepAlive s) = closed s"
  "sockets (clearKeepAlive s) = sockets s"
  "ws (clearKeepAlive s) = ws s"
  "reconnectAttempts (clearKeepAlive s) = reconnectAttempts s"
  "reconnectTimers (clearKeepAlive s) = reconnectTimers s"
  "waiters (clearKeepAlive s) = waiters s"
  "onTranscriptCallback (clearKeepAlive s) = onTranscriptCallback s"
  by (simp_all add: clearKeepAlive_def split: option.splits)

lemma ws_send_simps [simp]:
  "closed (ws_send s f) = closed s"
  "sockets (ws_send s f) = sockets s"
  "ws (ws_send s f) = ws s"
  "reconnectAttempts (ws_send s f) = reconnectAttempts s"
  "reconnectTimers (ws_send s f) = reconnectTimers s"
  "waiters (ws_send s f) = waiters s"
  "onTranscriptCallback (ws_send s f) = onTranscriptCallback s"
  by (simp_all add: ws_send_def split: option.splits)

lemma emit_partial_simps [simp]:
  "closed (emit_partial s t) = closed s"
  "sockets (emit_partial s t) = sockets s"
  "reconnectAttempts (emit_partial s t) = reconnectAttempts s"
  "reconnectTimers (emit_partial s t) = reconnectTimers s"
  "waiters (emit_partial s t) = waiters s"
  "onTranscriptCallback (emit_partial s t) = onTranscriptCallback s"
  "pendingTranscript (emit_partial s t) = pendingTranscript s"
  by (simp_all add: emit_partial_def)

lemma emit_transcript_simps [simp]:
  "closed (emit_transcript s t) = closed s"
  "sockets (emit_transcript s t) = sockets s"
  "reconnectAttempts (emit_transcript s t) = reconnectAttempts s"
  "reconnectTimers (emit_transcript s t) = reconnectTimers s"
  "pendingTranscript (emit_transcript s t) = pendingTranscript s"
  by (simp_all add: emit_transcript_def split: option.splits)

lemma handleEvent_frame [simp]:
  "closed (handleEvent s e) = closed s"
  "sockets (handleEvent s e) = sockets s"
  "reconnectAttempts (handleEvent s e) = reconnectAttempts s"
  "reconnectTimers (handleEvent s e) = reconnectTimers s"
  by (cases e; simp add: handleTranscriptResult_def Let_def split: option.splits list.splits)+

lemma closed_close [simp]: "closed (close s)"
  by (simp add: close_def Let_def ws_close_def split: option.splits)

lemma step_keeps_closed:
  "a \<noteq> Connect \<Longrightarrow> closed s \<Longrightarrow> closed (step s a)"
  by (cases a)
     (simp_all add: sendAudio_def onPartial_def waitForTranscript_def on_open_def
        on_message_def on_error_def on_close_def connect_timeout_def keepAlive_tick_def
        attemptReconnect_resume_def attemptReconnect_def transcript_timeout_def Let_def
        split: option.splits)

lemma step_closed_no_socket:
  "a \<noteq> Connect \<Longrightarrow> closed s \<Longrightarrow> length (sockets (step s a)) = length (sockets s)"
  by (cases a)
     (simp_all add: sendAudio_def onPartial_def waitForTranscript_def on_open_def
        on_message_def on_error_def on_close_def connect_timeout_def keepAlive_tick_def
        attemptReconnect_resume_def attemptReconnect_def transcript_timeout_def Let_def
        close_def ws_close_def
        split: option.splits)

lemma run_closed_no_socket:
  "Connect \<notin> set acts \<Longrightarrow> closed s \<Longrightarrow>
     closed (run s acts) \<and> length (sockets (run s acts)) = length (sockets s)"
  unfolding run_def
proof (induction acts arbitrary: s)
  case Nil
  then show ?case by simp
next
  case (Cons a acts)
  from Cons.prems have a: "a \<noteq> Connect" and rest: "Connect \<notin> set acts" by auto
  have c: "closed (step s a)" using a Cons.prems(2) by (rule step_keeps_closed)
  have l: "length (sockets (step s a)) = length (sockets s)"
    using a Cons.prems(2) by (rule step_closed_no_socket)
  from Cons.IH[OF rest c] l show ?case by simp
qed

lemma step_attempts_bounded:
  "reconnectAttempts s \<le> maxReconnectAttempts \<Longrightarrow>
     reconnectAttempts (step s a) \<le> maxReconnectAttempts"
  by (cases a)
     (simp_all add: connect_def doConnect_def sendAudio_def onPartial_def waitForTranscript_def
        on_open_def on_message_def on_error_def on_close_def connect_timeout_def
        keepAlive_tick_def attemptReconnect_resume_def attemptReconnect_def
        transcript_timeout_def close_def ws_close_def Let_def
        split: option.splits)

lemma run_attempts_bounded:
  "reconnectAttempts s \<le> maxReconnectAttempts \<Longrightarrow>
     reconnectAttempts (run s acts) \<le> maxReconnectAttempts"
  unfolding run_def
  by (induction acts arbitrary: s) (simp_all add: step_attempts_bounded)

subsection \<open>Reconnecting with exponential backoff\<close>

text \<open>
  C2. In every state a session can reach, an upstream socket closing while the session
  has not been closed on purpose starts reconnect attempt \<open>n\<close>, one more than the
  attempts made since the last successful open, with a timer of \<open>1000 \<times> 2^(n - 1)\<close> ms,
  and a new socket is created when that timer fires. The attempt counter never exceeds 5;
  once it is 5 a further close schedules nothing and creates no socket.
\<close>

theorem reconnect_backoff:
  assumes reach: "s = run new_session acts"
    and live: "\<not> closed s"
    and sock: "i < length (sockets s)" "readyState (sockets s ! i) \<noteq> CLOSED"
  shows "reconnectAttempts s \<le> 5 \<and>
    (let s' = step s (WsClose i); n = reconnectAttempts s + 1 in
       if reconnectAttempts s < 5
       then reconnectAttempts s' = n \<and>
            reconnectTimers s' = reconnectTimers s @ [(1000 * 2 ^ (n - 1), True)] \<and>
            length (sockets (step s' (ReconnectTimer (length (reconnectTimers s))))) =
              length (sockets s) + 1
       else reconnectAttempts s' = reconnectAttempts s \<and>
            reconnectTimers s' = reconnectTimers s \<and>
            length (sockets s') = length (sockets s))"
proof -
  have "reconnectAttempts new_session \<le> maxReconnectAttempts"
    by (simp add: new_session_def)
  then have bound: "reconnectAttempts s \<le> 5"
    using run_attempts_bounded[of new_session acts] reach by (simp add: maxReconnectAttempts_def)
  show ?thesis
  proof (cases "reconnectAttempts s < 5")
    case True
    then show ?thesis
      using bound live sock
      by (simp add: on_close_def attemptReconnect_def attemptReconnect_resume_def
          doConnect_def maxReconnectAttempts_def reconnectDelayMs_def Let_def nth_append)
  next
    case False
    then show ?thesis
      using bound live sock
      by (simp add: on_close_def attemptReconnect_def maxReconnectAttempts_def Let_def)
  qed
qed

theorem reconnect_backoff_witness:
  "\<not> closed one_failure \<and> readyState (sockets one_failure ! 1) = CONNECTING \<and>
   reconnectAttempts one_failure = 1 \<and>
   reconnectTimers (step one_failure (WsClose 1)) = [(1000, False), (2000, True)] \<and>
   \<not> closed five_failures \<and> readyState (sockets five_failures ! 5) = CONNECTING \<and>
   reconnectAttempts five_failures = 5 \<and>
   reconnectTimers (step five_failures (WsClose 5)) = reconnectTimers five_failures \<and>
   map fst (reconnectTimers five_failures) = [1000, 2000, 4000, 8000, 16000]"
proof -
  have one: "\<not> closed one_failure" "1 < length (sockets one_failure)"
    "readyState (sockets one_failure ! 1) = CONNECTING"
    "reconnectAttempts one_failure = 1" "reconnectTimers one_failure = [(1000, False)]"
    by (simp_all add: one_failure_def stt_eval)
  have five: "\<not> closed five_failures" "5 < length (sockets five_failures)"
    "readyState (sockets five_failures ! 5) = CONNECTING"
    "reconnectAttempts five_failures = 5"
    "map fst (reconnectTimers five_failures) = [1000, 2000, 4000, 8000, 16000]"
    by (simp_all add: five_failures_def stt_eval)
  from one(3) have "readyState (sockets one_failure ! 1) \<noteq> CLOSED" by simp
  from reconnect_backoff[OF one_failure_def one(1,2) this] one
  have second: "reconnectTimers (step one_failure (WsClose 1)) = [(1000, False), (2000, True)]"
    by (simp add: Let_def)
  from five(3) have "readyState (sockets five_failures ! 5) \<noteq> CLOSED" by simp
  from reconnect_backoff[OF five_failures_def five(1,2) this] five
  have given_up: "reconnectTimers (step five_failures (WsClose 5)) = reconnectTimers five_failures"
    by (simp add: Let_def)
  from one five second given_up show ?thesis by simp
qed

text \<open>
  What the counter counts: over any actions without \<open>connect()\<close> and without a socket
  opening, the delays of the attempts made are those of the consecutive attempt numbers,
  from one more than the counter at the start up to the counter at the end.
\<close>

lemma map_fst_disarm:
  "k < length xs \<Longrightarrow> map fst (xs[k := (fst (xs ! k), b)]) = map fst xs"
  by (simp add: map_update list_update_same_conv)

lemma step_attempt_or_not:
  assumes "\<not> resets_attempts a"
  shows "(reconnectAttempts (step s a) = reconnectAttempts s \<and> delays (step s a) = delays s) \<or>
         (reconnectAttempts (step s a) = reconnectAttempts s + 1 \<and>
          delays (step s a) = delays s @ [reconnectDelayMs * 2 ^ reconnectAttempts s])"
  using assms
  by (cases a)
     (simp_all add: delays_def doConnect_def sendAudio_def onPartial_def waitForTranscript_def
        on_message_def on_error_def on_close_def connect_timeout_def
        keepAlive_tick_def attemptReconnect_resume_def attemptReconnect_def
        transcript_timeout_def close_def ws_close_def Let_def map_fst_disarm
        split: option.splits)

lemma run_delays:
  assumes "\<forall>a\<in>set acts. \<not> resets_attempts a"
  shows "reconnectAttempts s \<le> reconnectAttempts (run s acts) \<and>
         delays (run s acts) =
           delays s @ map (\<lambda>n. reconnectDelayMs * 2 ^ (n - 1))
             [reconnectAttempts s + 1 ..< reconnectAttempts (run s acts) + 1]"
  using assms unfolding run_def
proof (induction acts arbitrary: s)
  case Nil
  then show ?case by simp
next
  case (Cons a acts)
  then have a: "\<not> resets_attempts a" and rest: "\<forall>a\<in>set acts. \<not> resets_attempts a" by simp_all
  let ?t = "step s a"
  let ?u = "foldl step ?t acts"
  from Cons.IH[OF rest, of ?t]
  have le: "reconnectAttempts ?t \<le> reconnectAttempts ?u"
    and ds: "delays ?u = delays ?t @ map (\<lambda>n. reconnectDelayMs * 2 ^ (n - 1))
             [reconnectAttempts ?t + 1 ..< reconnectAttempts ?u + 1]"
    by simp_all
  from step_attempt_or_not[OF a, of s] show ?case
  proof
    assume "reconnectAttempts ?t = reconnectAttempts s \<and> delays ?t = delays s"
    with le ds show ?thesis by simp
  next
    assume st: "reconnectAttempts ?t = reconnectAttempts s + 1 \<and>
          delays ?t = delays s @ [reconnectDelayMs * 2 ^ reconnectAttempts s]"
    then have "[reconnectAttempts s + 1 ..< reconnectAttempts ?u + 1] =
        (reconnectAttempts s + 1) # [reconnectAttempts ?t + 1 ..< reconnectAttempts ?u + 1]"
      using le by (simp add: upt_conv_Cons)
    with st le ds show ?thesis by simp
  qed
qed

subsection \<open>Audio while the upstream socket is not open\<close>

text \<open>
  C7. While the session's upstream socket is not open (there is none, or it is connecting,
  closing or closed, as in the gap before a reconnect) \<open>sendAudio\<close> returns the session
  as it was: nothing is sent, nothing is stored for later. The method has no failing
  path, and being a plain function of the state it does not wait.
\<close>

theorem sendAudio_dropped_when_not_open:
  "ws_readyState s \<noteq> Some OPEN \<Longrightarrow> sendAudio s muLawData = s"
  by (simp add: sendAudio_def)

theorem sendAudio_dropped_when_not_open_witness:
  "ws_readyState (run new_session [Connect, WsOpen 0, WsClose 0]) = Some CLOSED \<and>
   sendAudio (run new_session [Connect, WsOpen 0, WsClose 0]) [0xFF, 0x7F] =
     run new_session [Connect, WsOpen 0, WsClose 0]"
proof -
  have gap: "ws_readyState (run new_session [Connect, WsOpen 0, WsClose 0]) = Some CLOSED"
    by (simp add: run_def new_session_def connect_def doConnect_def on_open_def
        set_readyState_def settle_connect_def on_close_def clearKeepAlive_def
        attemptReconnect_def maxReconnectAttempts_def Let_def ws_readyState_def)
  then have "ws_readyState (run new_session [Connect, WsOpen 0, WsClose 0]) \<noteq> Some OPEN"
    by simp
  from sendAudio_dropped_when_not_open[OF this] gap show ?thesis by simp
qed

subsection \<open>No reconnection after close\<close>

text \<open>
  C8. After \<open>close()\<close>, whatever follows other than a new call of \<open>connect()\<close> (sockets
  closing, opening or failing, messages, any timer firing, the other methods), the
  session creates no further upstream socket and stays closed: reconnect timers that fire
  are abandoned and closing sockets start no new attempt.
\<close>

theorem close_prevents_reconnection:
  "Connect \<notin> set acts \<Longrightarrow>
     length (sockets (run (close s) acts)) = length (sockets s) \<and> closed (run (close s) acts)"
proof -
  assume no_connect: "Connect \<notin> set acts"
  have "length (sockets (close s)) = length (sockets s)"
    by (simp add: close_def ws_close_def Let_def split: option.splits)
  with run_closed_no_socket[OF no_connect closed_close, of s] show ?thesis by simp
qed

theorem close_prevents_reconnection_witness:
  "Connect \<notin> set [ReconnectTimer 0, WsClose 0, ReconnectTimer 0] \<and>
   reconnectTimers (run new_session [Connect, WsOpen 0, WsClose 0]) = [(1000, True)] \<and>
   length (sockets (run (close (run new_session [Connect, WsOpen 0, WsClose 0]))
     [ReconnectTimer 0, WsClose 0, ReconnectTimer 0])) = 1"
proof -
  have pending: "reconnectTimers (run new_session [Connect, WsOpen 0, WsClose 0]) = [(1000, True)]"
    and one: "length (sockets (run new_session [Connect, WsOpen 0, WsClose 0])) = 1"
    by (simp_all add: run_def new_session_def connect_def doConnect_def on_open_def
        set_readyState_def settle_connect_def on_close_def clearKeepAlive_def
        attemptReconnect_def maxReconnectAttempts_def reconnectDelayMs_def Let_def)
  have "Connect \<notin> set [ReconnectTimer 0, WsClose 0, ReconnectTimer 0]" by simp
  from close_prevents_reconnection[OF this, of "run new_session [Connect, WsOpen 0, WsClose 0]"]
    pending one
  show ?thesis by simp
qed

subsection \<open>Waiters\<close>








subsection \<open>Utterances\<close>





lemma slot_pending_simps [simp]:
  "slot_pending (emit_transcript s t)"
  "slot_pending (emit_partial s t) = slot_pending s"
  "slot_pending (s\<lparr>pendingTranscript := b\<rparr>) = slot_pending s"
  by (simp_all add: slot_pending_def emit_transcript_def emit_partial_def split: option.splits)











section \<open>Properties of the TTS provider\<close>

lemma wav_header_reads:
  "44 < length buffer \<Longrightarrow>
     readUInt16LE buffer 22 = Some (u16le buffer 22) \<and>
     readUInt32LE buffer 24 = Some (u32le buffer 24) \<and>
     readUInt16LE buffer 34 = Some (u16le buffer 34)"
  by (simp add: readUInt16LE_def readUInt32LE_def)

text \<open>
  C3, as the code has it. For a provider in WAV mode (its name is \<open>lemonfox\<close>) and a
  response longer than 44 bytes, \<open>synthesize\<close> returns the bytes of the response from
  offset 44 on, and the provider's sample rate becomes the little-endian 32-bit number
  at offset 24. The header is taken to be 44 bytes long; nothing looks for the \<open>data\<close>
  chunk.
\<close>

theorem synthesize_strips_44_bytes:
  assumes "tts_client p" and "tts_name p = ''lemonfox''"
    and "create \<lparr>req_model = tts_model p, req_voice = tts_voice p, req_input = input,
                  response_format = ''wav''\<rparr> = Inr buffer"
    and "44 < length buffer"
  shows "synthesize create p input =
           Inr (drop 44 buffer, p\<lparr>tts_sampleRate := u32le buffer 24\<rparr>)"
  using assms wav_header_reads[OF assms(4)]
  by (simp add: synthesize_def)

theorem synthesize_strips_44_bytes_witness:
  "synthesize (\<lambda>_. Inr wav_stereo) lemonfox ''Ready?'' =
     Inr ([0x64, 0x00, 0x2C, 0x01], lemonfox\<lparr>tts_sampleRate := 24000\<rparr>)"
proof -
  have "tts_client lemonfox" "tts_name lemonfox = ''lemonfox''" "44 < length wav_stereo"
    by (simp_all add: lemonfox_def wav_stereo_def)
  from synthesize_strips_44_bytes[where create = "\<lambda>_. Inr wav_stereo" and input = "''Ready?''",
      OF this(1,2) _ this(3)]
  show ?thesis by (simp add: wav_stereo_def u32le_def)
qed

text \<open>
  C3 as stated fails: in \<open>wav_data_at_78\<close> the \<open>data\<close> FourCC is at offset 70 and the PCM
  payload, which a scan for the FourCC finds, is the four bytes from offset 78. What
  \<open>synthesize\<close> returns are the 38 bytes from offset 44: the \<open>LIST\<close> chunk's content and
  the data chunk's header, then the payload. It is the same when the FourCC itself is at
  offset 78: of \<open>wav_fourcc_at_78\<close> the 46 bytes from offset 44 are returned.
\<close>

theorem data_chunk_at_78_not_found:
  "find_fourcc data_fourcc wav_data_at_78 0 = Some 70 \<and>
   wav_data_by_scan wav_data_at_78 = Some [0x01, 0x00, 0x02, 0x00] \<and>
   synthesize (\<lambda>_. Inr wav_data_at_78) lemonfox ''Ready?'' =
     Inr ([0x49, 0x4E, 0x46, 0x4F, 0x49, 0x53, 0x46, 0x54, 0x0E, 0x00, 0x00, 0x00,
           0x4C, 0x61, 0x76, 0x66, 0x35, 0x38, 0x2E, 0x37, 0x36, 0x2E, 0x31, 0x30, 0x30, 0x00,
           0x64, 0x61, 0x74, 0x61, 0x04, 0x00, 0x00, 0x00,
           0x01, 0x00, 0x02, 0x00], lemonfox) \<and>
   find_fourcc data_fourcc wav_fourcc_at_78 0 = Some 78 \<and>
   wav_data_by_scan wav_fourcc_at_78 = Some [0x01, 0x00, 0x02, 0x00] \<and>
   synthesize (\<lambda>_. Inr wav_fourcc_at_78) lemonfox ''Ready?'' =
     Inr ([0x49, 0x4E, 0x46, 0x4F, 0x49, 0x53, 0x46, 0x54, 0x16, 0x00, 0x00, 0x00,
           0x4C, 0x61, 0x76, 0x66, 0x35, 0x38, 0x2E, 0x37, 0x36, 0x2E, 0x31, 0x30, 0x30, 0x20,
           0x74, 0x74, 0x73, 0x2D, 0x31, 0x00, 0x00, 0x00,
           0x64, 0x61, 0x74, 0x61, 0x04, 0x00, 0x00, 0x00,
           0x01, 0x00, 0x02, 0x00], lemonfox)"
  by (simp add: wav_data_by_scan_def data_fourcc_def wav_data_at_78_def wav_fourcc_at_78_def
      synthesize_def lemonfox_def readUInt16LE_def readUInt32LE_def u16le_def u32le_def)

text \<open>
  C4, as the code has it. The channel count is read for a log line only: for a response
  with more than one channel the returned bytes are still those of the response from
  offset 44 on, the channels interleaved as they came.
\<close>

theorem synthesize_keeps_channels:
  assumes "tts_client p" and "tts_name p = ''lemonfox''"
    and "create \<lparr>req_model = tts_model p, req_voice = tts_voice p, req_input = input,
                  response_format = ''wav''\<rparr> = Inr buffer"
    and "44 < length buffer" and "1 < u16le buffer 22"
  shows "map_sum id fst (synthesize create p input) = Inr (drop 44 buffer)"
  using assms wav_header_reads[OF assms(4)]
  by (simp add: synthesize_def)

theorem synthesize_keeps_channels_witness:
  "u16le wav_stereo 22 = 2 \<and>
   map_sum id fst (synthesize (\<lambda>_. Inr wav_stereo) lemonfox ''Ready?'') =
     Inr [0x64, 0x00, 0x2C, 0x01]"
proof -
  have c: "u16le wav_stereo 22 = 2" by (simp add: wav_stereo_def u16le_def)
  have "tts_client lemonfox" "tts_name lemonfox = ''lemonfox''" "44 < length wav_stereo"
    "1 < u16le wav_stereo 22"
    by (simp_all add: c) (simp_all add: lemonfox_def wav_stereo_def)
  from synthesize_keeps_channels[where create = "\<lambda>_. Inr wav_stereo" and input = "''Ready?''",
      OF this(1,2) _ this(3,4)] c
  show ?thesis by (simp add: wav_stereo_def)
qed

text \<open>
  C4 as stated fails: \<open>wav_stereo\<close> has two channels and one frame, left 100 and right 300.
  Averaged to mono the payload is the one sample 200; \<open>synthesize\<close> returns both samples.
\<close>

theorem stereo_not_downmixed:
  "u16le wav_stereo 22 = 2 \<and>
   downmix_mono 2 (drop 44 wav_stereo) = [0xC8, 0x00] \<and>
   map_sum id fst (synthesize (\<lambda>_. Inr wav_stereo) lemonfox ''Ready?'') =
     Inr [0x64, 0x00, 0x2C, 0x01]"
  by (simp add: wav_stereo_def u16le_def u32le_def downmix_mono_def pcm16_bytes_def
      synthesize_def lemonfox_def readUInt16LE_def readUInt32LE_def)

section \<open>Properties of the message endpoint\<close>

text \<open>
  C6, as the code has it. When the \<open>sessionId\<close> parameter is missing, empty, or not the key
  of an active transport, the request goes to the transport added last, whichever session
  that belongs to. Only when no transport is active at all is the request refused (503).
\<close>

theorem messages_post_falls_back:
  assumes "session_transport activeTransports sessionId = None"
  shows "messages_post handlePostMessage activeTransports sessionId body =
           (if activeTransports = [] then NoActiveSession
            else if handlePostMessage (snd (last activeTransports)) body
                 then Dispatched (snd (last activeTransports))
                 else DispatchFailed (snd (last activeTransports)))"
  using assms by (simp add: messages_post_def Let_def last_map)

theorem messages_post_falls_back_witness:
  "session_transport (sse_connect (sse_connect [] ''a'' (1::int)) ''b'' 2) (Some ''zz'') = None \<and>
   messages_post (\<lambda>t body. True) (sse_connect (sse_connect [] ''a'' (1::int)) ''b'' 2)
     (Some ''zz'') ''{}'' = Dispatched 2"
proof -
  let ?ts = "sse_connect (sse_connect [] ''a'' (1::int)) ''b'' 2"
  have ts: "?ts = [(''a'', 1), (''b'', 2)]"
    by (simp add: sse_connect_def map_set_def)
  have none: "session_transport ?ts (Some ''zz'') = None"
    by (simp add: ts session_transport_def)
  from messages_post_falls_back[OF none, of "\<lambda>t body. True" "''{}''"] none
  show ?thesis by (simp add: ts)
qed

text \<open>
  C6 as stated fails: with the transports of two sessions active, a request without a
  session id, and one with an id that no transport has, are both handed to the second
  session's transport.
\<close>

theorem missing_session_id_dispatched:
  "session_transport [(''a'', 1::int), (''b'', 2)] None = None \<and>
   messages_post (\<lambda>t body. True) [(''a'', 1::int), (''b'', 2)] None ''{}'' = Dispatched 2 \<and>
   session_transport [(''a'', 1::int), (''b'', 2)] (Some ''zz'') = None \<and>
   messages_post (\<lambda>t body. True) [(''a'', 1::int), (''b'', 2)] (Some ''zz'') ''{}'' = Dispatched 2"
  by (simp add: messages_post_def session_transport_def)

section \<open>Properties of the voice handler\<close>

lemma cleanup_fields [simp]:
  "userResponses (cleanup h) = userResponses h"
  "call (cleanup h) = call h"
  "isComplete (cleanup h) = isComplete h"
  by (simp_all add: cleanup_def split: option.splits)

lemma handleOpenAIEvent_userResponses:
  "userResponses (handleOpenAIEvent h now event) =
     userResponses h @ user_text (OpenAIMessage now (Some event))"
  by (cases event) (simp_all add: completeCall_def)

lemma call_step_userResponses:
  "userResponses (call_step h a) = userResponses h @ user_text a"
proof (cases a)
  case (OpenAIMessage now data)
  then show ?thesis by (cases data) (simp_all add: handleOpenAIEvent_userResponses)
qed (simp_all add: sendSessionUpdate_def handleTwilioMessage_def completeCall_timer_def Let_def
      split: option.splits)

lemma call_run_userResponses:
  "userResponses (call_run h acts) = userResponses h @ user_texts acts"
  unfolding call_run_def user_texts_def
  by (induction acts arbitrary: h) (simp_all add: call_step_userResponses)

lemma handleOpenAIEvent_call:
  "call (handleOpenAIEvent h now event) = Resolved r \<Longrightarrow> call h = Resolved r"
  by (cases event) (auto simp: completeCall_def split: if_splits dest: reject_Resolved)

lemma call_step_resolves:
  assumes "call (call_step h a) = Resolved r"
  shows "call h = Resolved r \<or>
         ((\<exists>j. a = CompletionTimer j) \<and> status r = Completed \<and>
          call_transcript r =
            (if join [CHR 0x0A, CHR 0x0A] (userResponses h) = [] then ''No response captured''
             else join [CHR 0x0A, CHR 0x0A] (userResponses h)))"
proof (cases a)
  case (OpenAIMessage now data)
  with assms show ?thesis by (cases data) (auto dest: handleOpenAIEvent_call)
next
  case (CompletionTimer k)
  with assms show ?thesis
    by (auto simp: completeCall_timer_def Let_def split: if_splits dest!: resolve_Resolved)
qed (use assms in \<open>auto simp: sendSessionUpdate_def handleTwilioMessage_def Let_def
      split: option.splits if_splits dest: reject_Resolved\<close>)

text \<open>
  C9, as the code has it. Whenever the call's promise is resolved, the status is
  \<open>completed\<close>, a completion timer has fired, and the transcript is built from the user's
  transcription texts that arrived before that timer fired, in order of arrival and joined
  by blank lines; when that joined text is empty, the transcript is
  \<open>No response captured\<close> instead. The joined text is empty when no text arrived, and also
  when a single, empty text did.
\<close>

theorem completed_transcript:
  assumes "call (call_run (new_handler now) acts) = Resolved r"
  shows "status r = Completed \<and>
    (\<exists>k j. k < length acts \<and> acts ! k = CompletionTimer j \<and>
       call_transcript r =
         (if join [CHR 0x0A, CHR 0x0A] (user_texts (take k acts)) = [] then ''No response captured''
          else join [CHR 0x0A, CHR 0x0A] (user_texts (take k acts))))"
  using assms
proof (induction acts rule: rev_induct)
  case Nil
  then show ?case by (simp add: call_run_def new_handler_def)
next
  case (snoc a acts)
  let ?h = "call_run (new_handler now) acts"
  let ?text = "\<lambda>k. if join [CHR 0x0A, CHR 0x0A] (user_texts (take k acts)) = []
      then ''No response captured'' else join [CHR 0x0A, CHR 0x0A] (user_texts (take k acts))"
  from snoc.prems have "call (call_step ?h a) = Resolved r" by (simp add: call_run_def)
  from call_step_resolves[OF this] show ?case
  proof
    assume "call ?h = Resolved r"
    from snoc.IH[OF this] obtain k j where k: "k < length acts" "acts ! k = CompletionTimer j"
      and r: "status r = Completed" "call_transcript r = ?text k"
      by blast
    from k have "k < length (acts @ [a])" "(acts @ [a]) ! k = CompletionTimer j"
      "take k (acts @ [a]) = take k acts"
      by (simp_all add: nth_append)
    with r show ?thesis by metis
  next
    assume new: "(\<exists>j. a = CompletionTimer j) \<and> status r = Completed \<and>
          call_transcript r =
            (if join [CHR 0x0A, CHR 0x0A] (userResponses ?h) = [] then ''No response captured''
             else join [CHR 0x0A, CHR 0x0A] (userResponses ?h))"
    then obtain j where j: "a = CompletionTimer j" by blast
    have "userResponses ?h = user_texts acts"
      by (simp add: call_run_userResponses new_handler_def)
    with new have r: "status r = Completed" "call_transcript r = ?text (length acts)"
      by simp_all
    from j have "length acts < length (acts @ [a])" "(acts @ [a]) ! length acts = CompletionTimer j"
      "take (length acts) (acts @ [a]) = acts"
      by simp_all
    with r show ?thesis by (metis take_all order_refl)
  qed
qed

lemmas call_eval =
  call_run_def new_handler_def sendSessionUpdate_def handleTwilioMessage_def completeCall_def
  completeCall_timer_def cleanup_def assistantText_def toLowerCase_def lower_char_def
  resolve_def reject_def thanks_def user_texts_def Let_def

theorem completed_transcript_witness:
  "call (call_run (new_handler 0) two_answers) =
     Resolved \<lparr>status = Completed, call_transcript = ''yes\<newline>\<newline>go ahead'', duration = 9\<rparr> \<and>
   (\<exists>k j. k < length two_answers \<and> two_answers ! k = CompletionTimer j \<and>
      ''yes\<newline>\<newline>go ahead'' =
        (if join [CHR 0x0A, CHR 0x0A] (user_texts (take k two_answers)) = []
         then ''No response captured''
         else join [CHR 0x0A, CHR 0x0A] (user_texts (take k two_answers))))"
proof -
  have resolved: "call (call_run (new_handler 0) two_answers) =
     Resolved \<lparr>status = Completed, call_transcript = ''yes\<newline>\<newline>go ahead'', duration = 9\<rparr>"
    by (simp add: two_answers_def call_eval)
  from completed_transcript[OF resolved] resolved show ?thesis by simp
qed

text \<open>
  C9 as stated fails: in \<open>silent_call\<close> one transcription event of the user is received,
  with the empty text. The texts joined are the empty string, but the transcript returned
  is \<open>No response captured\<close>, which the claim keeps for calls with no such event.
\<close>

theorem empty_transcription_not_returned:
  "user_texts silent_call = [[]] \<and>
   call (call_run (new_handler 0) silent_call) =
     Resolved \<lparr>status = Completed, call_transcript = ''No response captured'', duration = 10\<rparr>"
  by (simp add: silent_call_def call_eval)

section \<open>Properties of the billing functions\<close>

text \<open>
  C10. For every integer \<open>minutesUsed\<close> (and every plan), \<open>getMinutesRemaining\<close> is never
  negative, and \<open>hasMinutesRemaining\<close> is true exactly when \<open>getMinutesRemaining\<close> is
  positive.
\<close>

theorem minutes_remaining_consistent:
  "0 \<le> getMinutesRemaining plan minutesUsed \<and>
   (hasMinutesRemaining plan minutesUsed \<longleftrightarrow> 0 < getMinutesRemaining plan minutesUsed)"
  by (auto simp: getMinutesRemaining_def hasMinutesRemaining_def)

end
